theory Spec2Isabelle
  imports Complex_Main
begin

section \<open>Values and faults\<close>

text \<open>
  The module under study is \<^verbatim>\<open>tcms/core/db.py\<close>, class \<^verbatim>\<open>GroupByResult\<close>
  (Python 2). Every \<^verbatim>\<open>raise\<close> that the class can reach is a constructor of
  \<open>error\<close>; a method that can raise returns \<open>error + 'a\<close> with \<open>Inl\<close> the fault.
\<close>

datatype error = KeyError | ValueError | TypeError | ZeroDivisionError

text \<open>
  The values a \<^verbatim>\<open>GroupByResult\<close> can hold. \<open>PyInt\<close> stands for both \<^verbatim>\<open>int\<close> and
  \<^verbatim>\<open>long\<close> (Python 2 promotes silently, and the class tests for either); \<^verbatim>\<open>bool\<close> is
  a subclass of \<^verbatim>\<open>int\<close> and is covered by \<open>PyInt 0\<close> and \<open>PyInt 1\<close>. \<open>PyFloat\<close> is
  idealised: it carries the exact rational, where Python rounds to a double and raises
  OverflowError beyond its range. \<open>PyObj\<close> is a nested \<^verbatim>\<open>GroupByResult\<close>.

  An object has the four attributes that \<^verbatim>\<open>__init__\<close> assigns: \<^verbatim>\<open>_total_name\<close>,
  \<^verbatim>\<open>_data\<close>, \<^verbatim>\<open>_total_result\<close> and \<^verbatim>\<open>_meta\<close>. The dict \<^verbatim>\<open>_data\<close> is an association
  list in the order in which the dict iterates; \<^verbatim>\<open>_meta\<close> only ever holds the key
  \<^verbatim>\<open>'value_leaf_count'\<close>, so it is the optional integer stored under that key.
  Objects are trees: an object reachable twice, or from itself, is outside the model.
\<close>

datatype pyval = PyInt int | PyFloat rat | PyStr string | PyNone | PyObj GroupByResult
  and GroupByResult =
    GroupByResult (gbr_total_name: "string option") (gbr_data: "(string \<times> pyval) list")
      (gbr_total_result: pyval) (gbr_meta: "int option")

section \<open>The dictionary behind the proxy methods\<close>

definition dict_contains :: "(string \<times> 'v) list \<Rightarrow> string \<Rightarrow> bool" where
  "dict_contains d k = (case map_of d k of None \<Rightarrow> False | Some v \<Rightarrow> True)"

definition dict_getitem :: "(string \<times> 'v) list \<Rightarrow> string \<Rightarrow> error + 'v" where
  "dict_getitem d k = (case map_of d k of None \<Rightarrow> Inl KeyError | Some v \<Rightarrow> Inr v)"

text \<open>An existing key keeps its place; a new key is put last (Python 2 places it by hash).\<close>

fun dict_setitem :: "(string \<times> 'v) list \<Rightarrow> string \<Rightarrow> 'v \<Rightarrow> (string \<times> 'v) list" where
  "dict_setitem [] k v = [(k, v)]"
| "dict_setitem ((k', v') # rest) k v =
     (if k' = k then (k, v) # rest else (k', v') # dict_setitem rest k v)"

fun dict_remove :: "(string \<times> 'v) list \<Rightarrow> string \<Rightarrow> (string \<times> 'v) list" where
  "dict_remove [] k = []"
| "dict_remove ((k', v') # rest) k = (if k' = k then dict_remove rest k else (k', v') # dict_remove rest k)"

definition dict_delitem :: "(string \<times> 'v) list \<Rightarrow> string \<Rightarrow> error + (string \<times> 'v) list" where
  "dict_delitem d k = (if dict_contains d k then Inr (dict_remove d k) else Inl KeyError)"

definition dict_get :: "(string \<times> 'v) list \<Rightarrow> string \<Rightarrow> 'v \<Rightarrow> 'v" where
  "dict_get d k dflt = (case map_of d k of None \<Rightarrow> dflt | Some v \<Rightarrow> v)"

text \<open>\<^verbatim>\<open>dict(data)\<close>: a fresh dict filled from the pairs of \<open>data\<close>, a later pair winning.\<close>

definition py_dict :: "(string \<times> 'v) list \<Rightarrow> (string \<times> 'v) list" where
  "py_dict xs = foldl (\<lambda>d (k, v). dict_setitem d k v) [] xs"

section \<open>Proxy methods of GroupByResult\<close>

definition contains :: "GroupByResult \<Rightarrow> string \<Rightarrow> bool" where
  "contains self item = dict_contains (gbr_data self) item"

definition getitem :: "GroupByResult \<Rightarrow> string \<Rightarrow> error + pyval" where
  "getitem self key = dict_getitem (gbr_data self) key"

definition setitem :: "GroupByResult \<Rightarrow> string \<Rightarrow> pyval \<Rightarrow> GroupByResult" where
  "setitem self key v =
     GroupByResult (gbr_total_name self) (dict_setitem (gbr_data self) key v)
       (gbr_total_result self) (gbr_meta self)"

definition delitem :: "GroupByResult \<Rightarrow> string \<Rightarrow> error + GroupByResult" where
  "delitem self key =
     (case dict_delitem (gbr_data self) key of
        Inl e \<Rightarrow> Inl e
      | Inr d \<Rightarrow> Inr (GroupByResult (gbr_total_name self) d (gbr_total_result self) (gbr_meta self)))"

definition len :: "GroupByResult \<Rightarrow> nat" where
  "len self = length (gbr_data self)"

text \<open>\<^verbatim>\<open>get(key, default=None)\<close>: the Python default is \<open>PyNone\<close>.\<close>

definition get :: "GroupByResult \<Rightarrow> string \<Rightarrow> pyval \<Rightarrow> pyval" where
  "get self key dflt = dict_get (gbr_data self) key dflt"

definition keys :: "GroupByResult \<Rightarrow> string list" where
  "keys self = map fst (gbr_data self)"

definition empty_gbr :: "GroupByResult \<Rightarrow> bool" where
  "empty_gbr self = (len self = 0)"

section \<open>Arithmetic of the values\<close>

text \<open>\<^verbatim>\<open>a + b\<close>, as \<^verbatim>\<open>total += subtotal\<close> evaluates it.\<close>

fun py_add :: "pyval \<Rightarrow> pyval \<Rightarrow> error + pyval" where
  "py_add (PyInt a) (PyInt b) = Inr (PyInt (a + b))"
| "py_add (PyInt a) (PyFloat b) = Inr (PyFloat (of_int a + b))"
| "py_add (PyFloat a) (PyInt b) = Inr (PyFloat (a + of_int b))"
| "py_add (PyFloat a) (PyFloat b) = Inr (PyFloat (a + b))"
| "py_add (PyStr a) (PyStr b) = Inr (PyStr (a @ b))"
| "py_add a b = Inl TypeError"

text \<open>\<^verbatim>\<open>total == 0\<close>: true of the numbers zero only; no other value equals 0.\<close>

fun py_eq_zero :: "pyval \<Rightarrow> bool" where
  "py_eq_zero (PyInt n) = (n = 0)"
| "py_eq_zero (PyFloat x) = (x = 0)"
| "py_eq_zero v = False"

text \<open>\<^verbatim>\<open>v * x\<close> for a float \<open>x\<close>: a number gives a float, anything else a TypeError.\<close>

fun py_mul_float :: "pyval \<Rightarrow> rat \<Rightarrow> error + rat" where
  "py_mul_float (PyInt n) x = Inr (of_int n * x)"
| "py_mul_float (PyFloat y) x = Inr (y * x)"
| "py_mul_float v x = Inl TypeError"

text \<open>\<^verbatim>\<open>x / v\<close> for a float \<open>x\<close>.\<close>

fun py_float_div :: "rat \<Rightarrow> pyval \<Rightarrow> error + pyval" where
  "py_float_div x (PyInt n) = (if n = 0 then Inl ZeroDivisionError else Inr (PyFloat (x / of_int n)))"
| "py_float_div x (PyFloat y) = (if y = 0 then Inl ZeroDivisionError else Inr (PyFloat (x / y)))"
| "py_float_div x v = Inl TypeError"

section \<open>The total\<close>

text \<open>
  \<^verbatim>\<open>_get_total\<close>, which is also the property \<^verbatim>\<open>total\<close>. \<open>total_loop\<close> is the
  \<^verbatim>\<open>for name, subtotal in self._data.iteritems()\<close> loop with its running \<^verbatim>\<open>total\<close> (\<open>tot\<close>):
  an \<^verbatim>\<open>int\<close> or \<^verbatim>\<open>long\<close> is added, a nested result adds its own \<^verbatim>\<open>total\<close>, and the
  \<^verbatim>\<open>if\<close>/\<^verbatim>\<open>elif\<close> has no \<^verbatim>\<open>else\<close>, so any other value is passed over.
\<close>

fun get_total :: "GroupByResult \<Rightarrow> error + pyval"
  and total_loop :: "(string \<times> pyval) list \<Rightarrow> pyval \<Rightarrow> error + pyval" where
  "get_total (GroupByResult tn d tr m) =
     (if d = [] then Inr (PyInt 0)
      else (case tn of
              Some k \<Rightarrow> dict_getitem d k
            | None \<Rightarrow> total_loop d (PyInt 0)))"
| "total_loop [] tot = Inr tot"
| "total_loop ((name, PyInt n) # rest) tot =
     (case py_add tot (PyInt n) of
        Inl e \<Rightarrow> Inl e
      | Inr t \<Rightarrow> total_loop rest t)"
| "total_loop ((name, PyObj g) # rest) tot =
     (case get_total g of
        Inl e \<Rightarrow> Inl e
      | Inr sub \<Rightarrow> (case py_add tot sub of
                     Inl e \<Rightarrow> Inl e
                   | Inr t \<Rightarrow> total_loop rest t))"
| "total_loop ((name, v) # rest) tot = total_loop rest tot"

text \<open>
  \<^verbatim>\<open>__init__(data=None, total_name=None)\<close>. The total is computed once, here, and kept
  in \<^verbatim>\<open>_total_result\<close>; \<^verbatim>\<open>_get_total\<close> reads \<^verbatim>\<open>_total_name\<close> and \<^verbatim>\<open>_data\<close> only, so
  the value given to the attribute not yet assigned does not matter. A fault of
  \<^verbatim>\<open>_get_total\<close> leaves no object.
\<close>

definition init :: "(string \<times> pyval) list option \<Rightarrow> string option \<Rightarrow> error + GroupByResult" where
  "init data_arg total_name =
     (let d = (case data_arg of None \<Rightarrow> [] | Some xs \<Rightarrow> py_dict xs) in
      case get_total (GroupByResult total_name d PyNone None) of
        Inl e \<Rightarrow> Inl e
      | Inr t \<Rightarrow> Inr (GroupByResult total_name d t None))"

section \<open>Percentages and attribute lookup\<close>

definition get_percent :: "GroupByResult \<Rightarrow> string \<Rightarrow> error + pyval" where
  "get_percent self key =
     (let tot = gbr_total_result self in
      case getitem self key of
        Inl e \<Rightarrow> Inl e
      | Inr subtotal \<Rightarrow>
          if py_eq_zero tot then Inr (PyFloat 0)
          else (case py_mul_float subtotal 100 of
                  Inl e \<Rightarrow> Inl e
                | Inr x \<Rightarrow> py_float_div x tot))"

text \<open>\<^verbatim>\<open>name.endswith(suffix)\<close> and \<^verbatim>\<open>name.split(sep)\<close> for a one-character separator.\<close>

definition endswith :: "string \<Rightarrow> string \<Rightarrow> bool" where
  "endswith name suffix =
     (length suffix \<le> length name \<and> drop (length name - length suffix) name = suffix)"

fun str_split :: "string \<Rightarrow> char \<Rightarrow> string list" where
  "str_split [] sep = [[]]"
| "str_split (c # cs) sep =
     (if c = sep then [] # str_split cs sep
      else (case str_split cs sep of
              [] \<Rightarrow> [[c]]
            | p # ps \<Rightarrow> (c # p) # ps))"

text \<open>
  \<^verbatim>\<open>__getattr__(name)\<close>, the hook Python calls for a name that ordinary attribute lookup
  does not find. \<^verbatim>\<open>key, identifier = name.split('_')\<close> unpacks exactly two pieces and
  raises ValueError for any other number.
\<close>

definition getattr :: "GroupByResult \<Rightarrow> string \<Rightarrow> error + pyval" where
  "getattr self name =
     (if endswith name ''_percent'' then
        (case str_split name (CHR ''_'') of
           [key, identifier] \<Rightarrow>
             (if contains self key then get_percent self key else Inr (PyInt 0))
         | pieces \<Rightarrow> Inl ValueError)
      else Inr (PyInt 0))"

text \<open>
  Attribute access \<^verbatim>\<open>gbr.name\<close>. Python looks the name up on the object and on its class
  first, and calls \<^verbatim>\<open>__getattr__\<close> only for a name it does not find there. The names
  it finds are the four attributes that \<^verbatim>\<open>__init__\<close> assigns, the names of the class body
  (its methods and the two properties, with \<^verbatim>\<open>__doc__\<close>, \<^verbatim>\<open>__module__\<close>,
  \<^verbatim>\<open>__dict__\<close> and \<^verbatim>\<open>__weakref__\<close>, which every class statement adds), and what
  \<^verbatim>\<open>object\<close> gives an instance of a new-style class in Python 2.
\<close>

definition instance_names :: "string list" where
  "instance_names = [''_total_name'', ''_data'', ''_total_result'', ''_meta'']"

definition class_names :: "string list" where
  "class_names =
     [''__init__'', ''__contains__'', ''__getitem__'', ''__setitem__'', ''__delitem__'',
      ''__len__'', ''__str__'', ''__repr__'', ''get'', ''iteritems'', ''setdefault'', ''keys'',
      ''empty'', ''_get_total'', ''total'', ''_get_percent'', ''__getattr__'',
      ''leaf_values_count'', ''__doc__'', ''__module__'', ''__dict__'', ''__weakref__'']"

definition object_names :: "string list" where
  "object_names =
     [''__class__'', ''__delattr__'', ''__format__'', ''__getattribute__'', ''__hash__'',
      ''__new__'', ''__reduce__'', ''__reduce_ex__'', ''__setattr__'', ''__sizeof__'',
      ''__subclasshook__'']"

definition ordinary_names :: "string list" where
  "ordinary_names = instance_names @ class_names @ object_names"

text \<open>
  What an attribute access gives: a value, or \<open>Other name\<close> for the object that ordinary
  lookup finds under \<open>name\<close> and that is no value of an entry (a bound method, the dict
  \<^verbatim>\<open>_data\<close> or \<^verbatim>\<open>_meta\<close>, the class, a docstring). The properties \<^verbatim>\<open>total\<close> and
  \<^verbatim>\<open>empty\<close> run their getters; \<^verbatim>\<open>True\<close> and \<^verbatim>\<open>False\<close> are \<open>PyInt 1\<close> and \<open>PyInt 0\<close>.
\<close>

datatype attr = Value pyval | Other string

definition attribute :: "GroupByResult \<Rightarrow> string \<Rightarrow> error + attr" where
  "attribute self name =
     (if name = ''total'' then
        (case get_total self of Inl e \<Rightarrow> Inl e | Inr t \<Rightarrow> Inr (Value t))
      else if name = ''empty'' then Inr (Value (PyInt (if empty_gbr self then 1 else 0)))
      else if name = ''_total_name'' then
        Inr (Value (case gbr_total_name self of None \<Rightarrow> PyNone | Some n \<Rightarrow> PyStr n))
      else if name = ''_total_result'' then Inr (Value (gbr_total_result self))
      else if name \<in> set ordinary_names then Inr (Other name)
      else (case getattr self name of Inl e \<Rightarrow> Inl e | Inr v \<Rightarrow> Inr (Value v)))"

section \<open>Counting leaf values\<close>

text \<open>
  \<^verbatim>\<open>leaf_values_count(value_in_row=False, refresh=False)\<close> returns the count and the
  object as the call leaves it: \<^verbatim>\<open>_meta['value_leaf_count']\<close> is written here and in
  every nested result the loop calls. \<open>count_loop\<close> is the \<^verbatim>\<open>for key, value\<close> loop
  with its running \<^verbatim>\<open>count\<close>; the nested call passes \<^verbatim>\<open>value_in_row\<close> on and leaves
  \<^verbatim>\<open>refresh\<close> at its default.
\<close>

fun leaf_values_count :: "GroupByResult \<Rightarrow> bool \<Rightarrow> bool \<Rightarrow> int \<times> GroupByResult"
  and count_loop :: "(string \<times> pyval) list \<Rightarrow> bool \<Rightarrow> int \<Rightarrow> int \<times> (string \<times> pyval) list" where
  "leaf_values_count (GroupByResult tn d tr m) value_in_row refresh =
     (case (if refresh then None else m) of
        Some cached \<Rightarrow> (cached, GroupByResult tn d tr m)
      | None \<Rightarrow>
          (case count_loop d value_in_row 0 of
             (count, d') \<Rightarrow> (count, GroupByResult tn d' tr (Some count))))"
| "count_loop [] value_in_row count = (count, [])"
| "count_loop ((key, PyObj g) # rest) value_in_row count =
     (case leaf_values_count g value_in_row False of
        (n, g') \<Rightarrow>
          (case count_loop rest value_in_row (count + n) of
             (c, rest') \<Rightarrow> (c, (key, PyObj g') # rest')))"
| "count_loop ((key, v) # rest) value_in_row count =
     (case count_loop rest value_in_row (if value_in_row then 1 else count + 1) of
        (c, rest') \<Rightarrow> (c, (key, v) # rest'))"

section \<open>Notions used to state the properties\<close>

text \<open>
  A result is \<open>plain\<close> when no level of it names a total key and every entry, at
  every level, is an integer (\<^verbatim>\<open>int\<close> or \<^verbatim>\<open>long\<close>, what the code tests for) or a nested
  result that is plain itself. \<open>leaves\<close> lists the integers of a result depth-first, in
  the order of iteration.
\<close>

fun plain :: "GroupByResult \<Rightarrow> bool"
  and plain_entries :: "(string \<times> pyval) list \<Rightarrow> bool" where
  "plain (GroupByResult tn d tr m) = (tn = None \<and> plain_entries d)"
| "plain_entries [] = True"
| "plain_entries ((k, PyInt n) # rest) = plain_entries rest"
| "plain_entries ((k, PyObj g) # rest) = (plain g \<and> plain_entries rest)"
| "plain_entries ((k, v) # rest) = False"

fun leaves :: "GroupByResult \<Rightarrow> int list"
  and leaves_entries :: "(string \<times> pyval) list \<Rightarrow> int list" where
  "leaves (GroupByResult tn d tr m) = leaves_entries d"
| "leaves_entries [] = []"
| "leaves_entries ((k, PyInt n) # rest) = n # leaves_entries rest"
| "leaves_entries ((k, PyObj g) # rest) = leaves g @ leaves_entries rest"
| "leaves_entries ((k, v) # rest) = leaves_entries rest"

text \<open>
  The same two notions with "numeric" read as any number: \<open>numeric\<close> admits float leaves
  as well, and \<open>leaf_sum\<close> is the arithmetic sum of all the leaves of such a result.
\<close>

fun numeric :: "GroupByResult \<Rightarrow> bool"
  and numeric_entries :: "(string \<times> pyval) list \<Rightarrow> bool" where
  "numeric (GroupByResult tn d tr m) = (tn = None \<and> numeric_entries d)"
| "numeric_entries [] = True"
| "numeric_entries ((k, PyInt n) # rest) = numeric_entries rest"
| "numeric_entries ((k, PyFloat x) # rest) = numeric_entries rest"
| "numeric_entries ((k, PyObj g) # rest) = (numeric g \<and> numeric_entries rest)"
| "numeric_entries ((k, v) # rest) = False"

fun leaf_sum :: "GroupByResult \<Rightarrow> rat"
  and leaf_sum_entries :: "(string \<times> pyval) list \<Rightarrow> rat" where
  "leaf_sum (GroupByResult tn d tr m) = leaf_sum_entries d"
| "leaf_sum_entries [] = 0"
| "leaf_sum_entries ((k, PyInt n) # rest) = of_int n + leaf_sum_entries rest"
| "leaf_sum_entries ((k, PyFloat x) # rest) = x + leaf_sum_entries rest"
| "leaf_sum_entries ((k, PyObj g) # rest) = leaf_sum g + leaf_sum_entries rest"
| "leaf_sum_entries ((k, v) # rest) = leaf_sum_entries rest"

text \<open>The values that the loop of \<^verbatim>\<open>_get_total\<close> has a branch for.\<close>

definition summable :: "pyval \<Rightarrow> bool" where
  "summable v = (case v of PyInt n \<Rightarrow> True | PyObj g \<Rightarrow> True | _ \<Rightarrow> False)"

text \<open>
  For the leaf count: \<open>is_nested\<close> is the test \<^verbatim>\<open>isinstance(value, GroupByResult)\<close>,
  \<open>nested_count\<close> is what the call \<^verbatim>\<open>value.leaf_values_count(True)\<close> returns for a
  nested result, and \<open>after_last_leaf\<close> is the run of nested entries that ends the
  iteration (all entries when none is a leaf).
\<close>

definition is_nested :: "pyval \<Rightarrow> bool" where
  "is_nested v = (case v of PyObj g \<Rightarrow> True | _ \<Rightarrow> False)"

definition nested_count :: "pyval \<Rightarrow> int" where
  "nested_count v = (case v of PyObj g \<Rightarrow> fst (leaf_values_count g True False) | _ \<Rightarrow> 0)"

definition after_last_leaf :: "(string \<times> pyval) list \<Rightarrow> (string \<times> pyval) list" where
  "after_last_leaf d = rev (takeWhile (\<lambda>(k, v). is_nested v) (rev d))"

text \<open>
  Mutations of the entries after construction: \<^verbatim>\<open>gbr[k] = v\<close> and \<^verbatim>\<open>del gbr[k]\<close>, and a
  sequence of them that stops at the first fault.
\<close>

datatype mutation = SetItem string pyval | DelItem string

fun mutate :: "GroupByResult \<Rightarrow> mutation \<Rightarrow> error + GroupByResult" where
  "mutate g (SetItem k v) = Inr (setitem g k v)"
| "mutate g (DelItem k) = delitem g k"

fun mutate_all :: "GroupByResult \<Rightarrow> mutation list \<Rightarrow> error + GroupByResult" where
  "mutate_all g [] = Inr g"
| "mutate_all g (x # xs) = (case mutate g x of Inl e \<Rightarrow> Inl e | Inr g' \<Rightarrow> mutate_all g' xs)"

section \<open>Attribute lookup\<close>

text \<open>
  Claim C1 says that \<^verbatim>\<open>__getattr__\<close> never faults and answers 0 to every name that is
  not \<open>K_percent\<close> for an entry \<open>K\<close>. The code does not: a name that ends in
  \<^verbatim>\<open>_percent\<close> and holds a second underscore splits into three pieces, and the unpacking
  into \<^verbatim>\<open>key, identifier\<close> raises ValueError. Here the object built from
  \<^verbatim>\<open>{'A': 1}\<close> has no entry \<^verbatim>\<open>Z_Y\<close>, and the lookup of \<^verbatim>\<open>Z_Y_percent\<close> faults.
\<close>

theorem getattr_two_underscores_faults:
  "init (Some [(''A'', PyInt 1)]) None = Inr (GroupByResult None [(''A'', PyInt 1)] (PyInt 1) None)
   \<and> contains (GroupByResult None [(''A'', PyInt 1)] (PyInt 1) None) ''Z_Y'' = False
   \<and> getattr (GroupByResult None [(''A'', PyInt 1)] (PyInt 1) None) ''Z_Y_percent'' = Inl ValueError"
  by (simp add: init_def py_dict_def getattr_def endswith_def contains_def dict_contains_def)

text \<open>
  Claim C2 says that \<open>K_percent\<close> is \<open>100 * value(K) / total()\<close> for the total at the time
  of the lookup, also after the entries were changed. The code divides by
  \<^verbatim>\<open>_total_result\<close>, which \<^verbatim>\<open>__init__\<close> computed and nothing updates, while the property
  \<^verbatim>\<open>total\<close> recomputes. After \<^verbatim>\<open>gbr = GroupByResult({'A': 1}); gbr['B'] = 3\<close> the total
  is 4, yet \<^verbatim>\<open>A_percent\<close> is 100.0 (not 25.0) and \<^verbatim>\<open>B_percent\<close> is 300.0 (not 75.0).
\<close>

theorem percent_uses_total_of_construction:
  "init (Some [(''A'', PyInt 1)]) None = Inr (GroupByResult None [(''A'', PyInt 1)] (PyInt 1) None)
   \<and> setitem (GroupByResult None [(''A'', PyInt 1)] (PyInt 1) None) ''B'' (PyInt 3)
       = GroupByResult None [(''A'', PyInt 1), (''B'', PyInt 3)] (PyInt 1) None
   \<and> get_total (GroupByResult None [(''A'', PyInt 1), (''B'', PyInt 3)] (PyInt 1) None) = Inr (PyInt 4)
   \<and> getattr (GroupByResult None [(''A'', PyInt 1), (''B'', PyInt 3)] (PyInt 1) None) ''A_percent''
       = Inr (PyFloat 100)
   \<and> getattr (GroupByResult None [(''A'', PyInt 1), (''B'', PyInt 3)] (PyInt 1) None) ''B_percent''
       = Inr (PyFloat 300)"
  by (simp add: init_def py_dict_def setitem_def getattr_def endswith_def contains_def
      dict_contains_def get_percent_def getitem_def dict_getitem_def)

text \<open>
  Claim C10 says that for every entry \<open>K\<close> the attribute access \<^verbatim>\<open>gbr.K\<close> answers 0.
  Two kinds of entry name escape the zero. A name that ordinary lookup finds never
  reaches \<^verbatim>\<open>__getattr__\<close>: with \<^verbatim>\<open>{'total': 5, 'A': 1}\<close>, \<^verbatim>\<open>gbr.total\<close> is the property,
  6. And a name that ends in \<^verbatim>\<open>_percent\<close> is read as a percentage: with
  \<^verbatim>\<open>{'A': 1, 'A_percent': 7}\<close>, \<^verbatim>\<open>gbr.A_percent\<close> is 12.5.
\<close>

theorem attribute_of_entry_counterexample:
  "init (Some [(''total'', PyInt 5), (''A'', PyInt 1)]) None
     = Inr (GroupByResult None [(''total'', PyInt 5), (''A'', PyInt 1)] (PyInt 6) None)
   \<and> getitem (GroupByResult None [(''total'', PyInt 5), (''A'', PyInt 1)] (PyInt 6) None) ''total''
     = Inr (PyInt 5)
   \<and> attribute (GroupByResult None [(''total'', PyInt 5), (''A'', PyInt 1)] (PyInt 6) None) ''total''
     = Inr (Value (PyInt 6))
   \<and> init (Some [(''A'', PyInt 1), (''A_percent'', PyInt 7)]) None
     = Inr (GroupByResult None [(''A'', PyInt 1), (''A_percent'', PyInt 7)] (PyInt 8) None)
   \<and> getitem (GroupByResult None [(''A'', PyInt 1), (''A_percent'', PyInt 7)] (PyInt 8) None)
       ''A_percent''
     = Inr (PyInt 7)
   \<and> attribute (GroupByResult None [(''A'', PyInt 1), (''A_percent'', PyInt 7)] (PyInt 8) None)
       ''A_percent''
     = Inr (Value (PyFloat (25 / 2)))"
  by (simp add: init_def py_dict_def getitem_def dict_getitem_def attribute_def ordinary_names_def
      instance_names_def class_names_def object_names_def getattr_def endswith_def contains_def
      dict_contains_def get_percent_def)

text \<open>
  Claim C10, as the code has it: for an entry \<open>k\<close> with value \<open>v\<close> whose name ordinary
  lookup does not find and which does not end in \<^verbatim>\<open>_percent\<close>, the attribute access
  \<^verbatim>\<open>gbr.k\<close> answers 0 and not \<open>v\<close>; the value is what \<^verbatim>\<open>gbr[k]\<close> and \<^verbatim>\<open>gbr.get(k, d)\<close>
  return. (The docstring of the class promises the value for \<^verbatim>\<open>gbr.A\<close>.)
\<close>

theorem attribute_of_entry_is_zero:
  assumes "getitem g k = Inr v"
    and "k \<notin> set ordinary_names"
    and "\<not> endswith k ''_percent''"
  shows "attribute g k = Inr (Value (PyInt 0)) \<and> getitem g k = Inr v \<and> get g k d = v"
proof -
  have "k \<noteq> ''total''" "k \<noteq> ''empty''" "k \<noteq> ''_total_name''" "k \<noteq> ''_total_result''"
    using assms(2) by (auto simp: ordinary_names_def instance_names_def class_names_def)
  moreover have "getattr g k = Inr (PyInt 0)"
    using assms(3) by (simp add: getattr_def)
  ultimately have "attribute g k = Inr (Value (PyInt 0))"
    using assms(2) by (simp add: attribute_def)
  moreover have "get g k d = v"
    using assms(1) by (auto simp: getitem_def get_def dict_getitem_def dict_get_def split: option.splits)
  ultimately show ?thesis using assms(1) by simp
qed

theorem attribute_of_entry_is_zero_witness:
  "getitem (GroupByResult None [(''A'', PyInt 100), (''B'', PyInt 200)] (PyInt 300) None) ''A''
     = Inr (PyInt 100)
   \<and> attribute (GroupByResult None [(''A'', PyInt 100), (''B'', PyInt 200)] (PyInt 300) None) ''A''
     = Inr (Value (PyInt 0))
   \<and> get (GroupByResult None [(''A'', PyInt 100), (''B'', PyInt 200)] (PyInt 300) None) ''A'' PyNone
     = PyInt 100"
proof -
  let ?g = "GroupByResult None [(''A'', PyInt 100), (''B'', PyInt 200)] (PyInt 300) None"
  have h1: "getitem ?g ''A'' = Inr (PyInt 100)" by (simp add: getitem_def dict_getitem_def)
  have h2: "''A'' \<notin> set ordinary_names"
    by (simp add: ordinary_names_def instance_names_def class_names_def object_names_def)
  have h3: "\<not> endswith ''A'' ''_percent''" by (simp add: endswith_def)
  from attribute_of_entry_is_zero[OF h1 h2 h3, of PyNone] show ?thesis by blast
qed

section \<open>Strict and defaulting access\<close>

text \<open>
  Claim C8: for a key \<open>k\<close> that is not an entry, \<^verbatim>\<open>gbr[k]\<close> raises KeyError,
  \<^verbatim>\<open>del gbr[k]\<close> raises KeyError, and \<^verbatim>\<open>gbr.get(k, d)\<close> returns \<open>d\<close>.
\<close>

theorem absent_key_access:
  "\<not> contains g k \<Longrightarrow>
   getitem g k = Inl KeyError \<and> delitem g k = Inl KeyError \<and> get g k d = d"
  by (auto simp: contains_def getitem_def delitem_def get_def dict_contains_def dict_getitem_def
      dict_delitem_def dict_get_def split: option.splits)

theorem absent_key_access_witness:
  "\<not> contains (GroupByResult None [(''A'', PyInt 1)] (PyInt 1) None) ''Z''
   \<and> getitem (GroupByResult None [(''A'', PyInt 1)] (PyInt 1) None) ''Z'' = Inl KeyError
   \<and> delitem (GroupByResult None [(''A'', PyInt 1)] (PyInt 1) None) ''Z'' = Inl KeyError
   \<and> get (GroupByResult None [(''A'', PyInt 1)] (PyInt 1) None) ''Z'' (PyInt 7) = PyInt 7"
proof -
  let ?g = "GroupByResult None [(''A'', PyInt 1)] (PyInt 1) None"
  have h: "\<not> contains ?g ''Z''" by (simp add: contains_def dict_contains_def)
  from absent_key_access[OF h, of "PyInt 7"] h show ?thesis by blast
qed

section \<open>Properties of the total\<close>

lemma dict_setitem_keys: "fst ` set (dict_setitem d k v) = insert k (fst ` set d)"
  by (induction d k v rule: dict_setitem.induct) auto

lemma py_dict_fold_keys:
  "fst ` set (foldl (\<lambda>d (k, v). dict_setitem d k v) acc xs) = fst ` set acc \<union> fst ` set xs"
proof (induction xs arbitrary: acc)
  case Nil
  then show ?case by simp
next
  case (Cons x xs)
  obtain a b where x: "x = (a, b)" by (cases x)
  show ?case unfolding x by (simp add: Cons.IH dict_setitem_keys)
qed

lemma py_dict_keys: "fst ` set (py_dict xs) = fst ` set xs"
  by (simp add: py_dict_def py_dict_fold_keys)

lemma py_dict_nonempty: "xs \<noteq> [] \<Longrightarrow> py_dict xs \<noteq> []"
proof
  assume "xs \<noteq> []" and "py_dict xs = []"
  then have "fst ` set xs = {}" using py_dict_keys[of xs] by simp
  with \<open>xs \<noteq> []\<close> show False by simp
qed

lemma map_of_None_keys: "(map_of d k = None) = (k \<notin> fst ` set d)"
  by (simp add: map_of_eq_None_iff)

lemma get_total_missing_total_name:
  "d \<noteq> [] \<Longrightarrow> map_of d k = None \<Longrightarrow> get_total (GroupByResult (Some k) d tr m) = Inl KeyError"
  by (simp add: dict_getitem_def)

text \<open>
  Claim C7: when \<^verbatim>\<open>_total_name\<close> is \<open>k\<close> and \<open>k\<close> is an entry with value \<open>v\<close>, the total
  is \<open>v\<close> itself, whatever the other entries hold; and the total of an empty result is 0,
  with or without a total name.
\<close>

theorem total_name_overrides_sum:
  "(gbr_total_name g = Some k \<and> getitem g k = Inr v \<longrightarrow> get_total g = Inr v)
   \<and> (empty_gbr g \<longrightarrow> get_total g = Inr (PyInt 0))"
proof (intro conjI impI)
  assume a: "gbr_total_name g = Some k \<and> getitem g k = Inr v"
  obtain tn d tr m where g: "g = GroupByResult tn d tr m" by (cases g)
  from a g have "tn = Some k" "dict_getitem d k = Inr v" by (simp_all add: getitem_def)
  moreover from this have "d \<noteq> []" by (auto simp: dict_getitem_def)
  ultimately show "get_total g = Inr v" unfolding g by simp
next
  assume "empty_gbr g"
  then show "get_total g = Inr (PyInt 0)"
    by (cases g) (simp add: empty_gbr_def len_def)
qed

theorem total_name_overrides_sum_witness:
  "get_total (GroupByResult (Some ''ALL'')
      [(''A'', PyInt 100), (''B'', PyInt 200), (''ALL'', PyInt 999)] (PyInt 999) None)
     = Inr (PyInt 999)
   \<and> get_total (GroupByResult (Some ''ALL'') [] (PyInt 0) None) = Inr (PyInt 0)"
proof -
  let ?g = "GroupByResult (Some ''ALL'')
      [(''A'', PyInt 100), (''B'', PyInt 200), (''ALL'', PyInt 999)] (PyInt 999) None"
  let ?e = "GroupByResult (Some ''ALL'') [] (PyInt 0) None"
  have h1: "gbr_total_name ?g = Some ''ALL'' \<and> getitem ?g ''ALL'' = Inr (PyInt 999)"
    by (simp add: getitem_def dict_getitem_def)
  have h2: "empty_gbr ?e" by (simp add: empty_gbr_def len_def)
  from total_name_overrides_sum[of ?g "''ALL''" "PyInt 999"] h1
  have "get_total ?g = Inr (PyInt 999)" by blast
  moreover from total_name_overrides_sum[of ?e "''ALL''" "PyInt 999"] h2
  have "get_total ?e = Inr (PyInt 0)" by blast
  ultimately show ?thesis by blast
qed

text \<open>
  Claim C9: when a result is not empty and \<^verbatim>\<open>_total_name\<close> is a key \<open>k\<close> that is not an
  entry, the total raises KeyError; and so does the construction from a non-empty
  \<open>xs\<close> without the key \<open>k\<close>, since \<^verbatim>\<open>__init__\<close> computes the total.
\<close>

theorem total_name_absent_is_KeyError:
  "(\<not> empty_gbr g \<and> gbr_total_name g = Some k \<and> \<not> contains g k \<longrightarrow> get_total g = Inl KeyError)
   \<and> (xs \<noteq> [] \<and> k \<notin> fst ` set xs \<longrightarrow> init (Some xs) (Some k) = Inl KeyError)"
proof (intro conjI impI)
  assume a: "\<not> empty_gbr g \<and> gbr_total_name g = Some k \<and> \<not> contains g k"
  obtain tn d tr m where g: "g = GroupByResult tn d tr m" by (cases g)
  from a g have "d \<noteq> []" "tn = Some k" "map_of d k = None"
    by (auto simp: empty_gbr_def len_def contains_def dict_contains_def split: option.splits)
  then show "get_total g = Inl KeyError"
    using g get_total_missing_total_name by simp
next
  assume a: "xs \<noteq> [] \<and> k \<notin> fst ` set xs"
  then have "py_dict xs \<noteq> []" "map_of (py_dict xs) k = None"
    by (simp_all add: py_dict_nonempty map_of_None_keys py_dict_keys)
  then have "get_total (GroupByResult (Some k) (py_dict xs) PyNone None) = Inl KeyError"
    by (rule get_total_missing_total_name)
  then show "init (Some xs) (Some k) = Inl KeyError"
    unfolding init_def by (simp add: Let_def)
qed

theorem total_name_absent_is_KeyError_witness:
  "get_total (GroupByResult (Some ''ALL'') [(''A'', PyInt 100), (''B'', PyInt 200)] (PyInt 0) None)
     = Inl KeyError
   \<and> init (Some [(''A'', PyInt 100), (''B'', PyInt 200)]) (Some ''ALL'') = Inl KeyError"
proof -
  let ?g = "GroupByResult (Some ''ALL'') [(''A'', PyInt 100), (''B'', PyInt 200)] (PyInt 0) None"
  let ?xs = "[(''A'', PyInt 100), (''B'', PyInt 200)]"
  have h1: "\<not> empty_gbr ?g \<and> gbr_total_name ?g = Some ''ALL'' \<and> \<not> contains ?g ''ALL''"
    by (simp add: empty_gbr_def len_def contains_def dict_contains_def)
  have h2: "?xs \<noteq> [] \<and> ''ALL'' \<notin> fst ` set ?xs" by simp
  from total_name_absent_is_KeyError[of ?g "''ALL''" ?xs] h1 h2 show ?thesis by blast
qed

text \<open>
  The loop of a plain result, started at an integer \<open>a\<close>, ends at \<open>a\<close> plus the sum of
  the leaves; both functions are handled together, along their own recursion.
\<close>

lemma total_plain_aux:
  "plain g \<longrightarrow> get_total g = Inr (PyInt (sum_list (leaves g)))"
  "plain_entries d \<longrightarrow>
     (\<forall>a. tot = PyInt a \<longrightarrow> total_loop d tot = Inr (PyInt (a + sum_list (leaves_entries d))))"
proof (induction g and d tot rule: get_total_total_loop.induct)
  case (1 tn d tr m)
  then show ?case by (cases d) auto
qed auto

text \<open>
  Claim C5 says that the total of a non-empty result of numeric leaves and nested results,
  with no total name, is the arithmetic sum of all its leaves. A float is a number, and
  the loop has no branch for it: the object built from \<^verbatim>\<open>{'A': 1.5, 'B': 2}\<close> has the leaf
  sum 3.5 and the total 2.
\<close>

theorem total_of_float_leaf_counterexample:
  "init (Some [(''A'', PyFloat (3 / 2)), (''B'', PyInt 2)]) None
     = Inr (GroupByResult None [(''A'', PyFloat (3 / 2)), (''B'', PyInt 2)] (PyInt 2) None)
   \<and> numeric (GroupByResult None [(''A'', PyFloat (3 / 2)), (''B'', PyInt 2)] (PyInt 2) None)
   \<and> \<not> empty_gbr (GroupByResult None [(''A'', PyFloat (3 / 2)), (''B'', PyInt 2)] (PyInt 2) None)
   \<and> leaf_sum (GroupByResult None [(''A'', PyFloat (3 / 2)), (''B'', PyInt 2)] (PyInt 2) None) = 7 / 2
   \<and> get_total (GroupByResult None [(''A'', PyFloat (3 / 2)), (''B'', PyInt 2)] (PyInt 2) None)
     = Inr (PyInt 2)"
  by (simp add: init_def py_dict_def empty_gbr_def len_def)

text \<open>
  Claim C5, as the code has it: for a plain result (leaves that are \<^verbatim>\<open>int\<close> or \<^verbatim>\<open>long\<close>
  and nested plain results only, no total name at any level) the total is the sum of all
  leaves reached depth-first. The equation holds for the empty result too.
\<close>

theorem total_is_sum_of_leaves:
  "plain g \<Longrightarrow> get_total g = Inr (PyInt (sum_list (leaves g)))"
  using total_plain_aux(1) by blast

theorem total_is_sum_of_leaves_witness:
  "plain (GroupByResult None
      [(''X'', PyObj (GroupByResult None [(''A'', PyInt 1), (''B'', PyInt 2)] (PyInt 3) None)),
       (''Y'', PyInt 5)] (PyInt 8) None)
   \<and> get_total (GroupByResult None
      [(''X'', PyObj (GroupByResult None [(''A'', PyInt 1), (''B'', PyInt 2)] (PyInt 3) None)),
       (''Y'', PyInt 5)] (PyInt 8) None) = Inr (PyInt 8)"
proof -
  let ?g = "GroupByResult None
      [(''X'', PyObj (GroupByResult None [(''A'', PyInt 1), (''B'', PyInt 2)] (PyInt 3) None)),
       (''Y'', PyInt 5)] (PyInt 8) None"
  have h: "plain ?g" by simp
  have "sum_list (leaves ?g) = 8" by simp
  with total_is_sum_of_leaves[OF h] h show ?thesis by simp
qed

lemma total_loop_skips:
  "total_loop d tot = total_loop (filter (\<lambda>(k, v). summable v) d) tot"
proof (induction d arbitrary: tot)
  case Nil
  then show ?case by simp
next
  case (Cons x d)
  obtain k v where x: "x = (k, v)" by (cases x)
  show ?case using Cons[of tot] unfolding x
    by (cases v) (auto simp: summable_def Cons split: sum.splits)
qed

text \<open>
  Claim C3 says that without a total name the total fails with InvalidEntryType on an
  entry that is neither a number nor a nested result. The code has no such fault: the
  object built from \<^verbatim>\<open>{'A': 'n/a'}\<close> is not empty, has no total name, and its total is 0.
\<close>

theorem total_does_not_fail_counterexample:
  "init (Some [(''A'', PyStr ''n/a'')]) None
     = Inr (GroupByResult None [(''A'', PyStr ''n/a'')] (PyInt 0) None)
   \<and> get_total (GroupByResult None [(''A'', PyStr ''n/a'')] (PyInt 0) None) = Inr (PyInt 0)"
  by (simp add: init_def py_dict_def)

text \<open>
  Claim C3, as the code has it: without a total name, entries that are neither
  \<^verbatim>\<open>int\<close>/\<^verbatim>\<open>long\<close> nor a nested result are passed over in silence. The total is the
  total of the same result with those entries taken out.
\<close>

theorem total_skips_other_values:
  "gbr_total_name g = None \<Longrightarrow>
   get_total g =
   get_total (GroupByResult None (filter (\<lambda>(k, v). summable v) (gbr_data g))
                (gbr_total_result g) (gbr_meta g))"
proof (cases g)
  case (GroupByResult tn d tr m)
  assume "gbr_total_name g = None"
  then have tn: "tn = None" using GroupByResult by simp
  show ?thesis
  proof (cases "filter (\<lambda>(k, v). summable v) d = []")
    case True
    then show ?thesis using GroupByResult tn total_loop_skips[of d "PyInt 0"] by simp
  next
    case False
    then have "d \<noteq> []" by auto
    then show ?thesis using GroupByResult tn False total_loop_skips[of d "PyInt 0"] by simp
  qed
qed

theorem total_skips_other_values_witness:
  "gbr_total_name (GroupByResult None
      [(''A'', PyInt 1), (''B'', PyStr ''n/a''), (''C'', PyNone), (''D'', PyInt 2)] (PyInt 3) None) = None
   \<and> get_total (GroupByResult None
      [(''A'', PyInt 1), (''B'', PyStr ''n/a''), (''C'', PyNone), (''D'', PyInt 2)] (PyInt 3) None)
     = get_total (GroupByResult None [(''A'', PyInt 1), (''D'', PyInt 2)] (PyInt 3) None)
   \<and> get_total (GroupByResult None
      [(''A'', PyInt 1), (''B'', PyStr ''n/a''), (''C'', PyNone), (''D'', PyInt 2)] (PyInt 3) None)
     = Inr (PyInt 3)"
proof -
  let ?g = "GroupByResult None
      [(''A'', PyInt 1), (''B'', PyStr ''n/a''), (''C'', PyNone), (''D'', PyInt 2)] (PyInt 3) None"
  have h: "gbr_total_name ?g = None" by simp
  have f: "filter (\<lambda>(k, v). summable v) (gbr_data ?g) = [(''A'', PyInt 1), (''D'', PyInt 2)]"
    by (simp add: summable_def)
  from total_skips_other_values[OF h] have
    "get_total ?g = get_total (GroupByResult None [(''A'', PyInt 1), (''D'', PyInt 2)] (PyInt 3) None)"
    unfolding f by simp
  then show ?thesis by simp
qed

section \<open>Properties of the leaf count\<close>

lemma count_loop_fst_nested:
  "fst (count_loop ((k, PyObj g) # rest) vir c) =
   fst (count_loop rest vir (c + fst (leaf_values_count g vir False)))"
  by (simp split: prod.splits)

lemma count_loop_fst_leaf:
  "\<not> is_nested v \<Longrightarrow>
   fst (count_loop ((k, v) # rest) vir c) = fst (count_loop rest vir (if vir then 1 else c + 1))"
  by (cases v) (simp_all add: is_nested_def split: prod.splits)

lemma after_last_leaf_Cons:
  "after_last_leaf (x # rest) =
     (if list_all (\<lambda>(k, v). is_nested v) rest
      then (if (case x of (k, v) \<Rightarrow> is_nested v) then x # rest else rest)
      else after_last_leaf rest)"
proof (cases "list_all (\<lambda>(k, v). is_nested v) rest")
  case True
  then have "\<And>y. y \<in> set (rev rest) \<Longrightarrow> (case y of (k, v) \<Rightarrow> is_nested v)"
    by (auto simp: list_all_iff)
  then have "takeWhile (\<lambda>(k, v). is_nested v) (rev rest @ [x]) =
             rev rest @ takeWhile (\<lambda>(k, v). is_nested v) [x]"
    by (rule takeWhile_append2)
  then show ?thesis using True by (simp add: after_last_leaf_def)
next
  case False
  then obtain y where "y \<in> set (rev rest)" "\<not> (case y of (k, v) \<Rightarrow> is_nested v)"
    by (auto simp: list_all_iff)
  then have "takeWhile (\<lambda>(k, v). is_nested v) (rev rest @ [x]) =
             takeWhile (\<lambda>(k, v). is_nested v) (rev rest)"
    by (rule takeWhile_append1)
  then show ?thesis using False by (simp add: after_last_leaf_def)
qed

lemma after_last_leaf_all:
  "list_all (\<lambda>(k, v). is_nested v) d \<Longrightarrow> after_last_leaf d = d"
proof (induction d)
  case Nil
  then show ?case by (simp add: after_last_leaf_def)
next
  case (Cons x d)
  then show ?case by (simp add: after_last_leaf_Cons)
qed

text \<open>
  The loop under \<^verbatim>\<open>value_in_row=True\<close>, started at \<open>c\<close>: a leaf sets the count to 1, so
  what came before the last leaf is forgotten, \<open>c\<close> included.
\<close>

lemma count_loop_value_in_row:
  "fst (count_loop d True c) =
     (if list_all (\<lambda>(k, v). is_nested v) d then c else 1)
     + (\<Sum>(k, v) \<leftarrow> after_last_leaf d. nested_count v)"
proof (induction d arbitrary: c)
  case Nil
  then show ?case by (simp add: after_last_leaf_def)
next
  case (Cons x d)
  obtain k v where x: "x = (k, v)" by (cases x)
  show ?case
  proof (cases "is_nested v")
    case True
    then obtain g where v: "v = PyObj g" by (cases v) (auto simp: is_nested_def)
    have n: "is_nested (PyObj g)"
      and c: "nested_count (PyObj g) = fst (leaf_values_count g True False)"
      by (simp_all add: is_nested_def nested_count_def)
    show ?thesis
      unfolding x v count_loop_fst_nested Cons.IH
      by (simp add: after_last_leaf_Cons after_last_leaf_all n c)
  next
    case False
    show ?thesis
      unfolding x count_loop_fst_leaf[OF False] Cons.IH
      using False by (simp add: after_last_leaf_Cons after_last_leaf_all)
  qed
qed

text \<open>
  Claim C4: when \<^verbatim>\<open>leaf_values_count(value_in_row=True)\<close> computes (\<^verbatim>\<open>refresh\<close> is set,
  or nothing is cached), a nested entry adds what its own
  \<^verbatim>\<open>leaf_values_count(True)\<close> returns and a leaf entry sets the count of the level to 1,
  however many leaves there are. So the count is 1 for the leaves, if there is any,
  plus the counts of the nested entries iterated after the last leaf; what nested
  entries before a leaf had added is dropped by that leaf.
\<close>

theorem leaf_values_count_value_in_row:
  assumes "refresh \<or> gbr_meta self = None"
  shows "fst (leaf_values_count self True refresh) =
           (if list_all (\<lambda>(k, v). is_nested v) (gbr_data self) then 0 else 1)
           + (\<Sum>(k, v) \<leftarrow> after_last_leaf (gbr_data self). nested_count v)"
proof (cases self)
  case (GroupByResult tn d tr m)
  have "(if refresh then None else m) = None" using assms GroupByResult by auto
  then have "fst (leaf_values_count self True refresh) = fst (count_loop d True 0)"
    unfolding GroupByResult by (simp split: prod.splits)
  then show ?thesis using GroupByResult by (simp add: count_loop_value_in_row)
qed

theorem leaf_values_count_value_in_row_witness:
  "fst (leaf_values_count
      (GroupByResult None [(''A'', PyInt 1), (''B'', PyInt 2), (''C'', PyInt 3)] (PyInt 6) (Some 3))
      True True) = 1
   \<and> fst (leaf_values_count
      (GroupByResult None
        [(''Y'', PyInt 5),
         (''X'', PyObj (GroupByResult None [(''A'', PyInt 1), (''B'', PyInt 2)] (PyInt 3) (Some 2)))]
        (PyInt 8) None)
      True False) = 3
   \<and> fst (leaf_values_count
      (GroupByResult None
        [(''X'', PyObj (GroupByResult None [(''A'', PyInt 1), (''B'', PyInt 2)] (PyInt 3) (Some 2))),
         (''Y'', PyInt 5)]
        (PyInt 8) None)
      True False) = 1"
proof -
  let ?n = "PyObj (GroupByResult None [(''A'', PyInt 1), (''B'', PyInt 2)] (PyInt 3) (Some 2))"
  let ?a = "GroupByResult None [(''A'', PyInt 1), (''B'', PyInt 2), (''C'', PyInt 3)] (PyInt 6) (Some 3)"
  let ?b = "GroupByResult None [(''Y'', PyInt 5), (''X'', ?n)] (PyInt 8) None"
  let ?c = "GroupByResult None [(''X'', ?n), (''Y'', PyInt 5)] (PyInt 8) None"
  have ha: "True \<or> gbr_meta ?a = None" by simp
  have hb: "False \<or> gbr_meta ?b = None" by simp
  have hc: "False \<or> gbr_meta ?c = None" by simp
  have "fst (leaf_values_count ?a True True) = 1"
    unfolding leaf_values_count_value_in_row[OF ha]
    by (simp add: after_last_leaf_def is_nested_def nested_count_def)
  moreover have "fst (leaf_values_count ?b True False) = 3"
    unfolding leaf_values_count_value_in_row[OF hb]
    by (simp add: after_last_leaf_def is_nested_def nested_count_def)
  moreover have "fst (leaf_values_count ?c True False) = 1"
    unfolding leaf_values_count_value_in_row[OF hc]
    by (simp add: after_last_leaf_def is_nested_def nested_count_def)
  ultimately show ?thesis by blast
qed

lemma leaf_values_count_caches:
  "leaf_values_count g vir refresh = (c, g1) \<Longrightarrow> gbr_meta g1 = Some c"
  by (cases g) (auto split: option.splits prod.splits if_splits)

lemma leaf_values_count_cached:
  "gbr_meta g = Some c \<Longrightarrow> leaf_values_count g vir False = (c, g)"
  by (cases g) simp

lemma mutate_meta: "mutate g x = Inr g' \<Longrightarrow> gbr_meta g' = gbr_meta g"
  by (cases x) (auto simp: setitem_def delitem_def split: sum.splits)

lemma mutate_all_meta: "mutate_all g xs = Inr g' \<Longrightarrow> gbr_meta g' = gbr_meta g"
  by (induction xs arbitrary: g) (auto split: sum.splits dest: mutate_meta)

lemma leaf_values_count_refresh:
  "leaf_values_count g vir True =
     (fst (count_loop (gbr_data g) vir 0),
      GroupByResult (gbr_total_name g) (snd (count_loop (gbr_data g) vir 0)) (gbr_total_result g)
        (Some (fst (count_loop (gbr_data g) vir 0))))"
  by (cases g) (simp split: prod.splits)

text \<open>
  Claim C6: once \<^verbatim>\<open>leaf_values_count\<close> has returned \<open>c\<close>, then after any sequence \<open>ms\<close>
  of \<^verbatim>\<open>gbr[k] = v\<close> and \<^verbatim>\<open>del gbr[k]\<close> a call without \<^verbatim>\<open>refresh\<close> still returns \<open>c\<close>
  (for either \<^verbatim>\<open>value_in_row\<close>) and changes nothing, so every later such call does the
  same; a call with \<^verbatim>\<open>refresh=True\<close> runs the loop over the entries as they are now
  and stores its count.
\<close>

theorem leaf_values_count_memoized:
  assumes "leaf_values_count g vir refresh = (c, g1)"
    and "mutate_all g1 ms = Inr g2"
  shows "leaf_values_count g2 vir' False = (c, g2)
       \<and> fst (leaf_values_count g2 vir' True) = fst (count_loop (gbr_data g2) vir' 0)
       \<and> gbr_meta (snd (leaf_values_count g2 vir' True))
           = Some (fst (count_loop (gbr_data g2) vir' 0))"
proof -
  have "gbr_meta g2 = Some c"
    using assms leaf_values_count_caches mutate_all_meta by simp
  then show ?thesis
    by (simp add: leaf_values_count_cached leaf_values_count_refresh)
qed

theorem leaf_values_count_memoized_witness:
  "leaf_values_count (GroupByResult None [(''A'', PyInt 1), (''B'', PyInt 2)] (PyInt 3) None)
      False False
     = (2, GroupByResult None [(''A'', PyInt 1), (''B'', PyInt 2)] (PyInt 3) (Some 2))
   \<and> mutate_all (GroupByResult None [(''A'', PyInt 1), (''B'', PyInt 2)] (PyInt 3) (Some 2))
        [SetItem ''C'' (PyInt 3)]
     = Inr (GroupByResult None [(''A'', PyInt 1), (''B'', PyInt 2), (''C'', PyInt 3)] (PyInt 3) (Some 2))
   \<and> leaf_values_count
        (GroupByResult None [(''A'', PyInt 1), (''B'', PyInt 2), (''C'', PyInt 3)] (PyInt 3) (Some 2))
        False False
     = (2, GroupByResult None [(''A'', PyInt 1), (''B'', PyInt 2), (''C'', PyInt 3)] (PyInt 3) (Some 2))
   \<and> fst (leaf_values_count
        (GroupByResult None [(''A'', PyInt 1), (''B'', PyInt 2), (''C'', PyInt 3)] (PyInt 3) (Some 2))
        False True) = 3"
proof -
  let ?g = "GroupByResult None [(''A'', PyInt 1), (''B'', PyInt 2)] (PyInt 3) None"
  let ?g1 = "GroupByResult None [(''A'', PyInt 1), (''B'', PyInt 2)] (PyInt 3) (Some 2)"
  let ?g2 = "GroupByResult None [(''A'', PyInt 1), (''B'', PyInt 2), (''C'', PyInt 3)] (PyInt 3) (Some 2)"
  have h1: "leaf_values_count ?g False False = (2, ?g1)" by simp
  have h2: "mutate_all ?g1 [SetItem ''C'' (PyInt 3)] = Inr ?g2" by (simp add: setitem_def)
  have "fst (count_loop (gbr_data ?g2) False 0) = 3" by simp
  with leaf_values_count_memoized[OF h1 h2, of False] h1 h2 show ?thesis by simp
qed

end
